theory Spec2Isabelle
  imports Main
begin

section \<open>Storage: the table \<open>essence\<close> and the mapped class (models.py, database.py)\<close>

text \<open>
  models.py declares one mapped class, \<open>Essence\<close>, over the table \<open>essence\<close> with the
  columns \<open>id\<close> (primary key), \<open>name\<close>, \<open>quantity\<close> and \<open>is_done\<close>, none of them
  nullable. Two types model it:
  \<^item> \<open>essence\<close> is a stored row: every column holds a value;
  \<^item> \<open>Essence\<close> is the Python object the handlers work on: any attribute may hold
    \<open>None\<close>, and \<open>id\<close> is \<open>None\<close> until the row has been inserted.
  Record fields are global constants in Isabelle, so each record prefixes the source's
  field names (\<open>row_\<close>, \<open>e_\<close>, \<open>b_\<close>, \<open>u_\<close>, \<open>o_\<close>, \<open>p_\<close>).

  The table is the list of its rows in rowid order, which is the order a \<open>SELECT\<close>
  without \<open>ORDER BY\<close> returns. Integers are Python's unbounded \<open>int\<close>; the column type
  \<open>Integer\<close> is taken to hold every such value, and \<open>String(255)\<close> to hold every string
  (the storage engine of database.py enforces no length).
\<close>

record essence =
  row_id :: int
  row_name :: string
  row_quantity :: int
  row_is_done :: bool

record Essence =
  e_id :: "int option"
  e_name :: "string option"
  e_quantity :: "int option"
  e_is_done :: "bool option"

datatype error =
    RequestValidationError
  | HTTPException nat
  | IntegrityError
  | ResponseValidationError

text \<open>Loading a row into an object, as \<open>db.get\<close> and \<open>db.refresh\<close> do.\<close>

definition load :: "essence \<Rightarrow> Essence" where
  "load r = \<lparr>e_id = Some (row_id r), e_name = Some (row_name r),
             e_quantity = Some (row_quantity r), e_is_done = Some (row_is_done r)\<rparr>"

text \<open>\<open>db.get(Essence, essence_id)\<close>: the row with that primary key, or \<open>None\<close>.\<close>

definition db_get :: "essence list \<Rightarrow> int \<Rightarrow> Essence option" where
  "db_get db essence_id = map_option load (find (\<lambda>r. row_id r = essence_id) db)"

text \<open>
  The key the storage assigns to a row inserted without one: 1 in an empty table, one more
  than the largest key otherwise.
\<close>

definition next_id :: "essence list \<Rightarrow> int" where
  "next_id db = (if db = [] then 1 else Max (set (map row_id db)) + 1)"

text \<open>
  \<open>INSERT\<close> of one pending object, followed by the reload of \<open>db.refresh\<close>. A \<open>None\<close>
  in \<open>name\<close> or \<open>quantity\<close> violates \<open>NOT NULL\<close>; a \<open>None\<close> in \<open>is_done\<close> takes the
  column default \<open>False\<close>. There is no other constraint on the values.
\<close>

definition insert_row :: "essence list \<Rightarrow> Essence \<Rightarrow> error + (essence list \<times> Essence)" where
  "insert_row db e =
     (case (e_name e, e_quantity e) of
        (Some n, Some q) \<Rightarrow>
          (let d = (case e_is_done e of None \<Rightarrow> False | Some b \<Rightarrow> b) in
           case e_id e of
             None \<Rightarrow>
               (let r = \<lparr>row_id = next_id db, row_name = n, row_quantity = q, row_is_done = d\<rparr>
                in Inr (db @ [r], load r))
           | Some k \<Rightarrow>
               (if k \<in> set (map row_id db) then Inl IntegrityError
                else (let r = \<lparr>row_id = k, row_name = n, row_quantity = q, row_is_done = d\<rparr>
                      in Inr (db @ [r], load r))))
      | _ \<Rightarrow> Inl IntegrityError)"

text \<open>
  \<open>db.add_all(essences); db.commit()\<close> and the refresh loop: the pending objects are
  inserted in the order they were added, in one transaction. A failure yields the error
  alone, so the caller keeps the table as it was.
\<close>

fun commit_new :: "essence list \<Rightarrow> Essence list \<Rightarrow> error + (essence list \<times> Essence list)" where
  "commit_new db [] = Inr (db, [])"
| "commit_new db (e # es) =
     (case insert_row db e of
        Inl err \<Rightarrow> Inl err
      | Inr (db', e') \<Rightarrow>
          (case commit_new db' es of
             Inl err \<Rightarrow> Inl err
           | Inr (db'', es') \<Rightarrow> Inr (db'', e' # es')))"

text \<open>
  \<open>db.commit()\<close> after attributes of a loaded object were assigned, and the refresh:
  \<open>UPDATE essence SET ... WHERE id = ?\<close>. A \<open>None\<close> in any column violates \<open>NOT NULL\<close>.
\<close>

definition commit_update :: "essence list \<Rightarrow> Essence \<Rightarrow> error + (essence list \<times> Essence)" where
  "commit_update db e =
     (case (e_id e, e_name e, e_quantity e, e_is_done e) of
        (Some i, Some n, Some q, Some d) \<Rightarrow>
          (let r = \<lparr>row_id = i, row_name = n, row_quantity = q, row_is_done = d\<rparr>
           in Inr (map (\<lambda>x. if row_id x = i then r else x) db, load r))
      | _ \<Rightarrow> Inl IntegrityError)"

text \<open>\<open>db.delete(essence); db.commit()\<close>: \<open>DELETE FROM essence WHERE id = ?\<close>.\<close>

definition commit_delete :: "essence list \<Rightarrow> Essence \<Rightarrow> essence list" where
  "commit_delete db e = filter (\<lambda>x. Some (row_id x) \<noteq> e_id e) db"

section \<open>Validation schemas (schemas.py)\<close>

text \<open>
  What reaches a schema is a set of named values. The wire format and the library's
  coercion of a value to the declared type are outside the repository, so a payload
  records, for each declared field, what the validator finds there: nothing, \<open>null\<close>,
  a value that is not of the declared type, or a value of that type. \<open>p_extra\<close> lists
  the keys that no schema declares.
\<close>

datatype 'a raw = Absent | Null | WrongType | Given 'a

record payload =
  p_name :: "string raw"
  p_quantity :: "int raw"
  p_is_done :: "bool raw"
  p_extra :: "string list"

text \<open>\<open>EssenceBase\<close>; \<open>EssenceCreate\<close> and \<open>EssenceReplace\<close> add nothing to it.\<close>

record EssenceBase =
  b_name :: string
  b_quantity :: int
  b_is_done :: bool

type_synonym EssenceCreate = EssenceBase
type_synonym EssenceReplace = EssenceBase

text \<open>\<open>name: str = Field(..., max_length=255)\<close>\<close>

definition base_name :: "string raw \<Rightarrow> string option" where
  "base_name v = (case v of Given s \<Rightarrow> if length s \<le> 255 then Some s else None | _ \<Rightarrow> None)"

text \<open>\<open>quantity: int = Field(..., ge=0)\<close>\<close>

definition base_quantity :: "int raw \<Rightarrow> int option" where
  "base_quantity v = (case v of Given q \<Rightarrow> if 0 \<le> q then Some q else None | _ \<Rightarrow> None)"

text \<open>\<open>is_done: bool = Field(False)\<close>\<close>

definition base_is_done :: "bool raw \<Rightarrow> bool option" where
  "base_is_done v = (case v of Absent \<Rightarrow> Some False | Given b \<Rightarrow> Some b | _ \<Rightarrow> None)"

text \<open>Validation of a payload against \<open>EssenceBase\<close>, with \<open>extra='forbid'\<close>.\<close>

definition validate_EssenceBase :: "payload \<Rightarrow> error + EssenceBase" where
  "validate_EssenceBase p =
     (case (base_name (p_name p), base_quantity (p_quantity p), base_is_done (p_is_done p)) of
        (Some n, Some q, Some d) \<Rightarrow>
          (if p_extra p = [] then Inr \<lparr>b_name = n, b_quantity = q, b_is_done = d\<rparr>
           else Inl RequestValidationError)
      | _ \<Rightarrow> Inl RequestValidationError)"

text \<open>
  \<open>EssenceUpdate\<close>: every field is \<open>Optional\<close> with default \<open>None\<close>. The object
  remembers which fields the payload set (\<open>model_fields_set\<close>).
\<close>

record EssenceUpdate =
  u_name :: "string option"
  u_quantity :: "int option"
  u_is_done :: "bool option"
  model_fields_set :: "string set"

text \<open>\<open>name: Optional[str] = Field(None, max_length=255)\<close>\<close>

definition update_name :: "string raw \<Rightarrow> string option option" where
  "update_name v =
     (case v of
        Absent \<Rightarrow> Some None
      | Null \<Rightarrow> Some None
      | WrongType \<Rightarrow> None
      | Given s \<Rightarrow> if length s \<le> 255 then Some (Some s) else None)"

text \<open>\<open>quantity: Optional[int] = Field(None, ge=0)\<close>\<close>

definition update_quantity :: "int raw \<Rightarrow> int option option" where
  "update_quantity v =
     (case v of
        Absent \<Rightarrow> Some None
      | Null \<Rightarrow> Some None
      | WrongType \<Rightarrow> None
      | Given q \<Rightarrow> if 0 \<le> q then Some (Some q) else None)"

text \<open>\<open>is_done: Optional[bool] = None\<close>\<close>

definition update_is_done :: "bool raw \<Rightarrow> bool option option" where
  "update_is_done v =
     (case v of
        Absent \<Rightarrow> Some None
      | Null \<Rightarrow> Some None
      | WrongType \<Rightarrow> None
      | Given b \<Rightarrow> Some (Some b))"

definition fields_set :: "payload \<Rightarrow> string set" where
  "fields_set p =
     (if p_name p = Absent then {} else {''name''}) \<union>
     (if p_quantity p = Absent then {} else {''quantity''}) \<union>
     (if p_is_done p = Absent then {} else {''is_done''})"

definition validate_EssenceUpdate :: "payload \<Rightarrow> error + EssenceUpdate" where
  "validate_EssenceUpdate p =
     (case (update_name (p_name p), update_quantity (p_quantity p),
            update_is_done (p_is_done p)) of
        (Some n, Some q, Some d) \<Rightarrow>
          (if p_extra p = []
           then Inr \<lparr>u_name = n, u_quantity = q, u_is_done = d, model_fields_set = fields_set p\<rparr>
           else Inl RequestValidationError)
      | _ \<Rightarrow> Inl RequestValidationError)"

text \<open>
  \<open>model_dump()\<close> yields the fields as key and value in declaration order;
  \<open>model_dump(exclude_unset=True)\<close> keeps the fields in \<open>model_fields_set\<close>. A pair of
  key and value is an \<open>attr\<close>.
\<close>

datatype attr = Name "string option" | Quantity "int option" | Is_done "bool option"

definition model_dump :: "EssenceBase \<Rightarrow> attr list" where
  "model_dump x = [Name (Some (b_name x)), Quantity (Some (b_quantity x)),
                   Is_done (Some (b_is_done x))]"

definition model_dump_exclude_unset :: "EssenceUpdate \<Rightarrow> attr list" where
  "model_dump_exclude_unset u =
     (if ''name'' \<in> model_fields_set u then [Name (u_name u)] else []) @
     (if ''quantity'' \<in> model_fields_set u then [Quantity (u_quantity u)] else []) @
     (if ''is_done'' \<in> model_fields_set u then [Is_done (u_is_done u)] else [])"

text \<open>\<open>EssenceOut\<close>: \<open>EssenceBase\<close> and \<open>id\<close>, read from the attributes of an object.\<close>

record EssenceOut =
  o_id :: int
  o_name :: string
  o_quantity :: int
  o_is_done :: bool

definition EssenceOut_from :: "Essence \<Rightarrow> error + EssenceOut" where
  "EssenceOut_from e =
     (case (e_id e, e_name e, e_quantity e, e_is_done e) of
        (Some i, Some n, Some q, Some d) \<Rightarrow>
          (if length n \<le> 255 \<and> 0 \<le> q
           then Inr \<lparr>o_id = i, o_name = n, o_quantity = q, o_is_done = d\<rparr>
           else Inl ResponseValidationError)
      | _ \<Rightarrow> Inl ResponseValidationError)"

section \<open>Handlers (routers.py)\<close>

text \<open>\<open>setattr(essence, key, value)\<close>\<close>

fun setattr :: "Essence \<Rightarrow> attr \<Rightarrow> Essence" where
  "setattr e (Name v) = e\<lparr>e_name := v\<rparr>"
| "setattr e (Quantity v) = e\<lparr>e_quantity := v\<rparr>"
| "setattr e (Is_done v) = e\<lparr>e_is_done := v\<rparr>"

text \<open>\<open>for key, value in items: setattr(essence, key, value)\<close>\<close>

definition setattrs :: "attr list \<Rightarrow> Essence \<Rightarrow> Essence" where
  "setattrs items essence = fold (\<lambda>kv e. setattr e kv) items essence"

text \<open>\<open>Essence(**kwargs)\<close>: a new object, every attribute not given is \<open>None\<close>.\<close>

definition new_Essence :: "attr list \<Rightarrow> Essence" where
  "new_Essence kwargs =
     setattrs kwargs \<lparr>e_id = None, e_name = None, e_quantity = None, e_is_done = None\<rparr>"

text \<open>
  The pattern of the \<open>name\<close> filter. \<open>like\<close> is the \<open>LIKE\<close> operator: in the pattern
  \<open>%\<close> stands for any run of characters and \<open>_\<close> for any one character. \<open>ilike\<close>
  compares the lower-cased operands, and lower-casing folds the letters A to Z.
\<close>

fun like :: "string \<Rightarrow> string \<Rightarrow> bool" where
  "like [] [] = True"
| "like [] (c # s) = False"
| "like (p # ps) [] = (p = CHR ''%'' \<and> like ps [])"
| "like (p # ps) (c # s) =
     (if p = CHR ''%'' then like ps (c # s) \<or> like (p # ps) s
      else (p = CHR ''_'' \<or> p = c) \<and> like ps s)"

definition lower_char :: "char \<Rightarrow> char" where
  "lower_char c =
     (let n = (of_char c :: nat) in if 65 \<le> n \<and> n \<le> 90 then char_of (n + 32) else c)"

definition lower :: "string \<Rightarrow> string" where
  "lower s = map lower_char s"

definition ilike :: "string \<Rightarrow> string \<Rightarrow> bool" where
  "ilike s pattern = like (lower pattern) (lower s)"

text \<open>
  \<open>list_essences\<close>. The bounds declared with \<open>Query\<close> (\<open>min_quantity\<close>, \<open>max_quantity\<close>
  and \<open>offset\<close> at least 0, \<open>limit\<close> from 1 to 100) are checked before the body runs.
  \<open>if name:\<close> skips the filter for \<open>None\<close> and for the empty string.
\<close>

definition query_bounds :: "int option \<Rightarrow> int option \<Rightarrow> int \<Rightarrow> int \<Rightarrow> bool" where
  "query_bounds min_quantity max_quantity limit offset =
     ((case min_quantity of None \<Rightarrow> True | Some m \<Rightarrow> 0 \<le> m) \<and>
      (case max_quantity of None \<Rightarrow> True | Some m \<Rightarrow> 0 \<le> m) \<and>
      1 \<le> limit \<and> limit \<le> 100 \<and> 0 \<le> offset)"

definition where_name :: "string option \<Rightarrow> essence \<Rightarrow> bool" where
  "where_name name r =
     (case name of
        None \<Rightarrow> True
      | Some n \<Rightarrow> if n = [] then True else ilike (row_name r) (''%'' @ n @ ''%''))"

definition where_is_done :: "bool option \<Rightarrow> essence \<Rightarrow> bool" where
  "where_is_done is_done r = (case is_done of None \<Rightarrow> True | Some d \<Rightarrow> row_is_done r = d)"

definition where_min_quantity :: "int option \<Rightarrow> essence \<Rightarrow> bool" where
  "where_min_quantity min_quantity r =
     (case min_quantity of None \<Rightarrow> True | Some m \<Rightarrow> m \<le> row_quantity r)"

definition where_max_quantity :: "int option \<Rightarrow> essence \<Rightarrow> bool" where
  "where_max_quantity max_quantity r =
     (case max_quantity of None \<Rightarrow> True | Some m \<Rightarrow> row_quantity r \<le> m)"

definition list_essences ::
  "essence list \<Rightarrow> string option \<Rightarrow> bool option \<Rightarrow> int option \<Rightarrow> int option \<Rightarrow> int \<Rightarrow> int
     \<Rightarrow> error + Essence list" where
  "list_essences db name is_done min_quantity max_quantity limit offset =
     (if \<not> query_bounds min_quantity max_quantity limit offset
      then Inl RequestValidationError
      else
        (let query = db;
             query = filter (where_name name) query;
             query = filter (where_is_done is_done) query;
             query = filter (where_min_quantity min_quantity) query;
             query = filter (where_max_quantity max_quantity) query
         in Inr (map load (take (nat limit) (drop (nat offset) query)))))"

definition get_essence :: "int \<Rightarrow> essence list \<Rightarrow> error + Essence" where
  "get_essence essence_id db =
     (case db_get db essence_id of
        None \<Rightarrow> Inl (HTTPException 404)
      | Some essence \<Rightarrow> Inr essence)"

definition create_essences_bulk ::
  "EssenceCreate list \<Rightarrow> essence list \<Rightarrow> error + (essence list \<times> Essence list)" where
  "create_essences_bulk essences_in db =
     (let essences = map (\<lambda>item. new_Essence (model_dump item)) essences_in
      in commit_new db essences)"

definition create_essence ::
  "EssenceCreate \<Rightarrow> essence list \<Rightarrow> error + (essence list \<times> Essence)" where
  "create_essence essence_in db =
     (let essence = new_Essence (model_dump essence_in)
      in insert_row db essence)"

definition put_essence ::
  "int \<Rightarrow> EssenceReplace \<Rightarrow> essence list \<Rightarrow> error + (essence list \<times> Essence)" where
  "put_essence essence_id essence_in db =
     (case db_get db essence_id of
        None \<Rightarrow> Inl (HTTPException 404)
      | Some essence \<Rightarrow> commit_update db (setattrs (model_dump essence_in) essence))"

definition patch_essence ::
  "int \<Rightarrow> EssenceUpdate \<Rightarrow> essence list \<Rightarrow> error + (essence list \<times> Essence)" where
  "patch_essence essence_id essence_in db =
     (case db_get db essence_id of
        None \<Rightarrow> Inl (HTTPException 404)
      | Some essence \<Rightarrow>
          commit_update db (setattrs (model_dump_exclude_unset essence_in) essence))"

definition delete_essence :: "int \<Rightarrow> essence list \<Rightarrow> error + essence list" where
  "delete_essence essence_id db =
     (case db_get db essence_id of
        None \<Rightarrow> Inl (HTTPException 404)
      | Some essence \<Rightarrow> Inr (commit_delete db essence))"

section \<open>Routes: how a request reaches a handler and what is answered\<close>

text \<open>
  A request carries query parameters and a body. A handler parameter annotated with a
  schema alone (\<open>essence_in: EssenceReplace\<close>) is read from the body; a parameter
  annotated \<open>Annotated[EssenceCreate, Depends()]\<close> makes the schema a dependency, whose
  fields are read from the query parameters of the same names, and query parameters
  that the dependency does not declare are not passed to it.
\<close>

datatype body = NoBody | Object payload | Array "payload list"

record request =
  query :: payload
  body :: body

datatype content = Empty | One EssenceOut | Many "EssenceOut list" | Detail

datatype response = Response (status_code: nat) (content: content)

text \<open>
  A validation error is answered 422, an \<open>HTTPException\<close> with its status code, and an
  exception without a handler (from storage, or from the response model) 500.
\<close>

fun error_response :: "error \<Rightarrow> response" where
  "error_response RequestValidationError = Response 422 Detail"
| "error_response (HTTPException status) = Response status Detail"
| "error_response IntegrityError = Response 500 Detail"
| "error_response ResponseValidationError = Response 500 Detail"

text \<open>
  The answer to a handler's result under \<open>response_model=EssenceOut\<close>. An error raised
  by the handler leaves the table as it was; a failure of the response model comes
  after the commit.
\<close>

definition respond ::
  "nat \<Rightarrow> essence list \<Rightarrow> error + (essence list \<times> Essence) \<Rightarrow> response \<times> essence list" where
  "respond status db result =
     (case result of
        Inl err \<Rightarrow> (error_response err, db)
      | Inr (db', essence) \<Rightarrow>
          (case EssenceOut_from essence of
             Inl err \<Rightarrow> (error_response err, db')
           | Inr out \<Rightarrow> (Response status (One out), db')))"

text \<open>The same for \<open>response_model=List[EssenceOut]\<close>.\<close>

fun EssenceOut_from_all :: "Essence list \<Rightarrow> error + EssenceOut list" where
  "EssenceOut_from_all [] = Inr []"
| "EssenceOut_from_all (e # es) =
     (case EssenceOut_from e of
        Inl err \<Rightarrow> Inl err
      | Inr out \<Rightarrow>
          (case EssenceOut_from_all es of
             Inl err \<Rightarrow> Inl err
           | Inr outs \<Rightarrow> Inr (out # outs)))"

definition respond_many ::
  "nat \<Rightarrow> essence list \<Rightarrow> error + (essence list \<times> Essence list) \<Rightarrow> response \<times> essence list" where
  "respond_many status db result =
     (case result of
        Inl err \<Rightarrow> (error_response err, db)
      | Inr (db', essences) \<Rightarrow>
          (case EssenceOut_from_all essences of
             Inl err \<Rightarrow> (error_response err, db')
           | Inr outs \<Rightarrow> (Response status (Many outs), db')))"

text \<open>Validation of a body declared \<open>List[EssenceCreate]\<close>.\<close>

fun validate_list :: "payload list \<Rightarrow> error + EssenceBase list" where
  "validate_list [] = Inr []"
| "validate_list (p # ps) =
     (case validate_EssenceBase p of
        Inl err \<Rightarrow> Inl err
      | Inr x \<Rightarrow>
          (case validate_list ps of
             Inl err \<Rightarrow> Inl err
           | Inr xs \<Rightarrow> Inr (x # xs)))"

text \<open>The dependency \<open>Depends()\<close> on \<open>EssenceCreate\<close>: its fields, from the query.\<close>

definition depends_EssenceCreate :: "request \<Rightarrow> error + EssenceCreate" where
  "depends_EssenceCreate req = validate_EssenceBase ((query req)\<lparr>p_extra := []\<rparr>)"

text \<open>\<open>GET /{essence_id}\<close>\<close>

definition route_get :: "essence list \<Rightarrow> int \<Rightarrow> response \<times> essence list" where
  "route_get db essence_id =
     respond 200 db (map_sum id (\<lambda>essence. (db, essence)) (get_essence essence_id db))"

text \<open>\<open>POST /bulk\<close>, status 201\<close>

definition route_post_bulk :: "essence list \<Rightarrow> request \<Rightarrow> response \<times> essence list" where
  "route_post_bulk db req =
     (case body req of
        Array ps \<Rightarrow>
          (case validate_list ps of
             Inl err \<Rightarrow> (error_response err, db)
           | Inr essences_in \<Rightarrow> respond_many 201 db (create_essences_bulk essences_in db))
      | _ \<Rightarrow> (error_response RequestValidationError, db))"

text \<open>\<open>POST\<close> on the prefix, status 201\<close>

definition route_post :: "essence list \<Rightarrow> request \<Rightarrow> response \<times> essence list" where
  "route_post db req =
     (case depends_EssenceCreate req of
        Inl err \<Rightarrow> (error_response err, db)
      | Inr essence_in \<Rightarrow> respond 201 db (create_essence essence_in db))"

text \<open>\<open>PUT /{essence_id}\<close>\<close>

definition route_put :: "essence list \<Rightarrow> int \<Rightarrow> request \<Rightarrow> response \<times> essence list" where
  "route_put db essence_id req =
     (case body req of
        Object p \<Rightarrow>
          (case validate_EssenceBase p of
             Inl err \<Rightarrow> (error_response err, db)
           | Inr essence_in \<Rightarrow> respond 200 db (put_essence essence_id essence_in db))
      | _ \<Rightarrow> (error_response RequestValidationError, db))"

text \<open>\<open>PATCH /{essence_id}\<close>\<close>

definition route_patch :: "essence list \<Rightarrow> int \<Rightarrow> request \<Rightarrow> response \<times> essence list" where
  "route_patch db essence_id req =
     (case body req of
        Object p \<Rightarrow>
          (case validate_EssenceUpdate p of
             Inl err \<Rightarrow> (error_response err, db)
           | Inr essence_in \<Rightarrow> respond 200 db (patch_essence essence_id essence_in db))
      | _ \<Rightarrow> (error_response RequestValidationError, db))"

text \<open>\<open>DELETE /{essence_id}\<close>: the handler returns \<open>Response(status_code=204)\<close> itself.\<close>

definition route_delete :: "essence list \<Rightarrow> int \<Rightarrow> response \<times> essence list" where
  "route_delete db essence_id =
     (case delete_essence essence_id db of
        Inl err \<Rightarrow> (error_response err, db)
      | Inr db' \<Rightarrow> (Response 204 Empty, db'))"

text \<open>
  The tables that the operations changing the state can produce, starting from the
  empty table that the application creates at startup.
\<close>

inductive reachable :: "essence list \<Rightarrow> bool" where
  init: "reachable []"
| create: "reachable db \<Longrightarrow> reachable (snd (route_post db req))"
| bulk: "reachable db \<Longrightarrow> reachable (snd (route_post_bulk db req))"
| put: "reachable db \<Longrightarrow> reachable (snd (route_put db essence_id req))"
| patch: "reachable db \<Longrightarrow> reachable (snd (route_patch db essence_id req))"
| delete: "reachable db \<Longrightarrow> reachable (snd (route_delete db essence_id))"

section \<open>Notions used in the statements\<close>

text \<open>
  The rows that a bulk insert of the validated payloads \<open>xs\<close> appends when the first of
  them receives the key \<open>i\<close>, and the record that answers for a row.
\<close>

fun bulk_rows :: "int \<Rightarrow> EssenceBase list \<Rightarrow> essence list" where
  "bulk_rows i [] = []"
| "bulk_rows i (x # xs) =
     \<lparr>row_id = i, row_name = b_name x, row_quantity = b_quantity x, row_is_done = b_is_done x\<rparr>
       # bulk_rows (i + 1) xs"

definition record_of :: "essence \<Rightarrow> EssenceOut" where
  "record_of r = \<lparr>o_id = row_id r, o_name = row_name r, o_quantity = row_quantity r,
                  o_is_done = row_is_done r\<rparr>"

text \<open>
  The name filter in the words of the specification: a case-insensitive "contains" match.
  \<open>contains s sub\<close> holds when \<open>sub\<close> occurs in \<open>s\<close> as a run of consecutive
  characters.
\<close>

fun starts_with :: "string \<Rightarrow> string \<Rightarrow> bool" where
  "starts_with s [] = True"
| "starts_with [] (c # sub) = False"
| "starts_with (a # s) (c # sub) = (a = c \<and> starts_with s sub)"

fun contains :: "string \<Rightarrow> string \<Rightarrow> bool" where
  "contains [] sub = (sub = [])"
| "contains (a # s) sub = (starts_with (a # s) sub \<or> contains s sub)"

definition spec_name_match :: "string \<Rightarrow> essence \<Rightarrow> bool" where
  "spec_name_match name r = contains (lower (row_name r)) (lower name)"

section \<open>Storage and validation lemmas\<close>




lemma new_Essence_model_dump:
  "new_Essence (model_dump x) =
     \<lparr>e_id = None, e_name = Some (b_name x), e_quantity = Some (b_quantity x),
      e_is_done = Some (b_is_done x)\<rparr>"
  by (simp add: new_Essence_def model_dump_def setattrs_def)

lemma create_essence_eq:
  "create_essence x db =
     Inr (db @ [\<lparr>row_id = next_id db, row_name = b_name x, row_quantity = b_quantity x,
                 row_is_done = b_is_done x\<rparr>],
          load \<lparr>row_id = next_id db, row_name = b_name x, row_quantity = b_quantity x,
                row_is_done = b_is_done x\<rparr>)"
  by (simp add: create_essence_def new_Essence_model_dump insert_row_def Let_def)

lemma validate_EssenceBase_Inr:
  "validate_EssenceBase p = Inr x \<longleftrightarrow>
     p_name p = Given (b_name x) \<and> length (b_name x) \<le> 255 \<and>
     p_quantity p = Given (b_quantity x) \<and> 0 \<le> b_quantity x \<and>
     (p_is_done p = Absent \<and> \<not> b_is_done x \<or> p_is_done p = Given (b_is_done x)) \<and>
     p_extra p = []"
  by (cases x) (auto simp: validate_EssenceBase_def base_name_def base_quantity_def base_is_done_def
      split: raw.splits option.splits if_splits)


lemma EssenceOut_from_load:
  "length (row_name r) \<le> 255 \<Longrightarrow> 0 \<le> row_quantity r \<Longrightarrow>
   EssenceOut_from (load r) =
     Inr \<lparr>o_id = row_id r, o_name = row_name r, o_quantity = row_quantity r,
          o_is_done = row_is_done r\<rparr>"
  by (simp add: EssenceOut_from_def load_def)



section \<open>Create and read back\<close>



section \<open>Where the create operation reads its payload\<close>







section \<open>Bulk create\<close>

lemma validate_list_sound:
  "validate_list ps = Inr xs \<Longrightarrow> list_all2 (\<lambda>p x. validate_EssenceBase p = Inr x) ps xs"
  by (induction ps arbitrary: xs) (auto split: sum.splits)

lemma validate_list_complete:
  "list_all2 (\<lambda>p x. validate_EssenceBase p = Inr x) ps xs \<Longrightarrow> validate_list ps = Inr xs"
  by (induction rule: list_all2_induct) auto

lemma validate_list_Inr:
  "validate_list ps = Inr xs \<longleftrightarrow> list_all2 (\<lambda>p x. validate_EssenceBase p = Inr x) ps xs"
  using validate_list_sound validate_list_complete by blast




lemma next_id_snoc: "row_id r = next_id db \<Longrightarrow> next_id (db @ [r]) = next_id db + 1"
proof (cases "db = []")
  case True
  assume "row_id r = next_id db"
  with True show ?thesis by (simp add: next_id_def)
next
  case False
  assume r: "row_id r = next_id db"
  have "Max (insert (row_id r) (row_id ` set db)) = max (row_id r) (Max (row_id ` set db))"
    using False by (intro Max_insert) auto
  with r False show ?thesis by (simp add: next_id_def)
qed

lemma commit_new_bulk:
  "commit_new db (map (\<lambda>item. new_Essence (model_dump item)) xs) =
     Inr (db @ bulk_rows (next_id db) xs, map load (bulk_rows (next_id db) xs))"
proof (induction xs arbitrary: db)
  case Nil
  then show ?case by simp
next
  case (Cons x xs)
  let ?r = "\<lparr>row_id = next_id db, row_name = b_name x, row_quantity = b_quantity x,
             row_is_done = b_is_done x\<rparr>"
  have ins: "insert_row db (new_Essence (model_dump x)) = Inr (db @ [?r], load ?r)"
    by (simp add: new_Essence_model_dump insert_row_def Let_def)
  have "next_id (db @ [?r]) = next_id db + 1"
    by (rule next_id_snoc) simp
  with Cons [of "db @ [?r]"] ins show ?case by simp
qed



lemma EssenceOut_from_all_load:
  "\<forall>r \<in> set rows. length (row_name r) \<le> 255 \<and> 0 \<le> row_quantity r \<Longrightarrow>
   EssenceOut_from_all (map load rows) = Inr (map record_of rows)"
  by (induction rows) (auto simp: EssenceOut_from_load record_of_def)

lemma bulk_rows_valid:
  "\<forall>x \<in> set xs. length (b_name x) \<le> 255 \<and> 0 \<le> b_quantity x \<Longrightarrow>
   \<forall>r \<in> set (bulk_rows i xs). length (row_name r) \<le> 255 \<and> 0 \<le> row_quantity r"
  by (induction xs arbitrary: i) auto

lemma route_post_bulk_accepted:
  assumes "body req = Array ps" and "validate_list ps = Inr xs"
  shows "route_post_bulk db req =
           (Response 201 (Many (map record_of (bulk_rows (next_id db) xs))),
            db @ bulk_rows (next_id db) xs)"
proof -
  have "\<forall>x \<in> set xs. length (b_name x) \<le> 255 \<and> 0 \<le> b_quantity x"
  proof
    fix x assume "x \<in> set xs"
    with assms(2) obtain p where "validate_EssenceBase p = Inr x"
      unfolding validate_list_Inr by (auto simp: in_set_conv_nth list_all2_conv_all_nth)
    then show "length (b_name x) \<le> 255 \<and> 0 \<le> b_quantity x"
      by (simp add: validate_EssenceBase_Inr)
  qed
  then have "EssenceOut_from_all (map load (bulk_rows (next_id db) xs)) =
      Inr (map record_of (bulk_rows (next_id db) xs))"
    by (intro EssenceOut_from_all_load bulk_rows_valid)
  with assms show ?thesis
    by (simp add: route_post_bulk_def create_essences_bulk_def commit_new_bulk respond_many_def)
qed



section \<open>Listing\<close>

lemma list_essences_page:
  "query_bounds min_quantity max_quantity limit offset \<Longrightarrow>
   list_essences db name is_done min_quantity max_quantity limit offset =
     Inr (map load (take (nat limit) (drop (nat offset)
       (filter (\<lambda>r. where_name name r \<and> where_is_done is_done r \<and>
                    where_min_quantity min_quantity r \<and> where_max_quantity max_quantity r) db))))"
  by (simp add: list_essences_def conj_commute conj_left_commute)

lemma like_percent: "like ''%'' s"
  by (induction s) auto

lemma like_starts_with:
  "\<forall>c \<in> set n. c \<noteq> CHR ''%'' \<and> c \<noteq> CHR ''_'' \<Longrightarrow> like (n @ ''%'') s = starts_with s n"
proof (induction n arbitrary: s)
  case Nil
  then show ?case by (simp add: like_percent)
next
  case (Cons a n)
  then show ?case by (cases s) auto
qed

lemma starts_with_Nil: "starts_with [] n = (n = [])"
  by (cases n) auto

lemma like_contains:
  assumes "\<forall>c \<in> set n. c \<noteq> CHR ''%'' \<and> c \<noteq> CHR ''_''"
  shows "like (CHR ''%'' # n @ ''%'') s = contains s n"
proof (induction s)
  case Nil
  from assms have "like (n @ ''%'') [] = starts_with [] n"
    by (rule like_starts_with)
  then show ?case by (simp add: starts_with_Nil)
next
  case (Cons c s)
  from assms have "like (n @ ''%'') (c # s) = starts_with (c # s) n"
    by (rule like_starts_with)
  with Cons show ?case by simp
qed

lemma lower_char_upper:
  fixes c :: char
  assumes "65 \<le> (of_char c :: nat)" and "(of_char c :: nat) \<le> 90"
  shows "char_of (of_char c + (32::nat)) \<noteq> CHR ''%''"
    and "char_of (of_char c + (32::nat)) \<noteq> CHR ''_''"
proof -
  let ?x = "of_char c + (32::nat)"
  have m: "?x mod 256 = ?x" using assms by simp
  show "char_of ?x \<noteq> CHR ''%''"
  proof
    assume "char_of ?x = CHR ''%''"
    then have "(of_char (char_of ?x) :: nat) = of_char CHR ''%''" by (rule arg_cong)
    then have "?x mod 256 = 37" by simp
    with m assms show False by simp
  qed
  show "char_of ?x \<noteq> CHR ''_''"
  proof
    assume "char_of ?x = CHR ''_''"
    then have "(of_char (char_of ?x) :: nat) = of_char CHR ''_''" by (rule arg_cong)
    then have "?x mod 256 = 95" by simp
    with m assms show False by simp
  qed
qed

lemma lower_char_percent: "lower_char c = CHR ''%'' \<longleftrightarrow> c = CHR ''%''"
  using lower_char_upper(1) [of c] by (auto simp: lower_char_def Let_def)

lemma lower_char_underscore: "lower_char c = CHR ''_'' \<longleftrightarrow> c = CHR ''_''"
  using lower_char_upper(2) [of c] by (auto simp: lower_char_def Let_def)

lemma contains_Nil: "contains s []"
  by (cases s) auto

text \<open>
  For a name without \<open>%\<close> and \<open>_\<close> the filter of \<open>list_essences\<close> is the
  case-insensitive "contains" match of the specification.
\<close>

lemma where_name_spec:
  assumes "\<forall>c \<in> set name. c \<noteq> CHR ''%'' \<and> c \<noteq> CHR ''_''"
  shows "where_name (Some name) r = spec_name_match name r"
proof (cases "name = []")
  case True
  then show ?thesis
    by (simp add: where_name_def spec_name_match_def lower_def contains_Nil)
next
  case False
  from assms have "\<forall>c \<in> set (lower name). c \<noteq> CHR ''%'' \<and> c \<noteq> CHR ''_''"
    by (auto simp: lower_def lower_char_percent lower_char_underscore)
  then have "like (CHR ''%'' # lower name @ ''%'') (lower (row_name r)) =
      contains (lower (row_name r)) (lower name)"
    by (rule like_contains)
  moreover have "lower (''%'' @ name @ ''%'') = CHR ''%'' # lower name @ ''%''"
    by (simp add: lower_def lower_char_def)
  ultimately show ?thesis
    using False by (simp add: where_name_def spec_name_match_def ilike_def)
qed

text \<open>
  The example of the specification: over Apple, Apricot and Banana, \<open>name = ap\<close> selects
  the first two, in the order of their creation.
\<close>

lemma list_essences_example:
  "list_essences
     [\<lparr>row_id = 1, row_name = ''Apple'', row_quantity = 5, row_is_done = False\<rparr>,
      \<lparr>row_id = 2, row_name = ''Apricot'', row_quantity = 3, row_is_done = True\<rparr>,
      \<lparr>row_id = 3, row_name = ''Banana'', row_quantity = 10, row_is_done = False\<rparr>]
     (Some ''ap'') None None None 10 0 =
   Inr [load \<lparr>row_id = 1, row_name = ''Apple'', row_quantity = 5, row_is_done = False\<rparr>,
        load \<lparr>row_id = 2, row_name = ''Apricot'', row_quantity = 3, row_is_done = True\<rparr>]"
  by code_simp

text \<open>
  C4. The claim takes the name filter for a case-insensitive substring match. The code
  passes the name into the pattern of \<open>ilike\<close> as it is, so a \<open>_\<close> or a \<open>%\<close> in
  the name is a wildcard: with \<open>name = _\<close> the list operation returns Banana, whose
  name does not contain that character.
\<close>

theorem list_name_wildcard:
  "list_essences
     [\<lparr>row_id = 3, row_name = ''Banana'', row_quantity = 10, row_is_done = False\<rparr>]
     (Some ''_'') None None None 10 0 =
   Inr [load \<lparr>row_id = 3, row_name = ''Banana'', row_quantity = 10, row_is_done = False\<rparr>] \<and>
   \<not> spec_name_match ''_''
       \<lparr>row_id = 3, row_name = ''Banana'', row_quantity = 10, row_is_done = False\<rparr>"
  by code_simp

section \<open>Lookup, update and delete by key\<close>

lemma db_get_None_iff: "db_get db i = None \<longleftrightarrow> i \<notin> row_id ` set db"
  by (auto simp: db_get_def find_None_iff)

lemma db_get_SomeD:
  "db_get db i = Some e \<Longrightarrow> \<exists>r \<in> set db. row_id r = i \<and> e = load r"
  by (auto simp: db_get_def find_Some_iff)

lemma db_get_update:
  "row_id r = i \<Longrightarrow>
   db_get (map (\<lambda>x. if row_id x = i then r else x) db) j =
     (if j = i then (if db_get db i = None then None else Some (load r)) else db_get db j)"
  by (induction db) (auto simp: db_get_def)

lemma db_get_delete:
  "db_get (filter (\<lambda>x. row_id x \<noteq> i) db) j = (if j = i then None else db_get db j)"
  by (induction db) (auto simp: db_get_def)

lemma commit_delete_load:
  "commit_delete db (load r) = filter (\<lambda>x. row_id x \<noteq> row_id r) db"
  by (simp add: commit_delete_def load_def)

lemma setattrs_model_dump:
  "setattrs (model_dump x) e =
     e\<lparr>e_name := Some (b_name x), e_quantity := Some (b_quantity x),
       e_is_done := Some (b_is_done x)\<rparr>"
  by (simp add: setattrs_def model_dump_def)

lemma put_essence_found:
  assumes "db_get db essence_id = Some essence"
  shows "put_essence essence_id x db =
     Inr (map (\<lambda>r. if row_id r = essence_id
                    then \<lparr>row_id = essence_id, row_name = b_name x, row_quantity = b_quantity x,
                          row_is_done = b_is_done x\<rparr>
                    else r) db,
          load \<lparr>row_id = essence_id, row_name = b_name x, row_quantity = b_quantity x,
                row_is_done = b_is_done x\<rparr>)"
proof -
  from assms obtain r where "row_id r = essence_id" and "essence = load r"
    by (auto dest: db_get_SomeD)
  then have "e_id essence = Some essence_id"
    by (simp add: load_def)
  with assms show ?thesis
    by (simp add: put_essence_def setattrs_model_dump commit_update_def Let_def)
qed

section \<open>Full replace\<close>




section \<open>Partial update\<close>

lemma snd_respond:
  "snd (respond status db result) = (case result of Inl err \<Rightarrow> db | Inr (db', e) \<Rightarrow> db')"
  by (auto simp: respond_def split: sum.splits)

lemma in_fields_set:
  "''name'' \<in> fields_set p \<longleftrightarrow> p_name p \<noteq> Absent"
  "''quantity'' \<in> fields_set p \<longleftrightarrow> p_quantity p \<noteq> Absent"
  "''is_done'' \<in> fields_set p \<longleftrightarrow> p_is_done p \<noteq> Absent"
  by (simp_all add: fields_set_def)

lemma validate_EssenceUpdate_InrD:
  "validate_EssenceUpdate p = Inr u \<Longrightarrow>
   model_fields_set u = fields_set p \<and> update_name (p_name p) = Some (u_name u) \<and>
   update_quantity (p_quantity p) = Some (u_quantity u) \<and>
   update_is_done (p_is_done p) = Some (u_is_done u) \<and> p_extra p = []"
  by (auto simp: validate_EssenceUpdate_def split: option.splits if_splits)

lemma validate_EssenceUpdate_Inl:
  "validate_EssenceUpdate p = Inl e \<Longrightarrow> e = RequestValidationError"
  by (auto simp: validate_EssenceUpdate_def split: option.splits if_splits)

lemma setattrs_exclude_unset:
  "setattrs (model_dump_exclude_unset u) e =
     \<lparr>e_id = e_id e,
      e_name = (if ''name'' \<in> model_fields_set u then u_name u else e_name e),
      e_quantity = (if ''quantity'' \<in> model_fields_set u then u_quantity u else e_quantity e),
      e_is_done = (if ''is_done'' \<in> model_fields_set u then u_is_done u else e_is_done e)\<rparr>"
  by (cases e) (simp add: setattrs_def model_dump_exclude_unset_def)

lemma commit_update_cases:
  assumes "e_id e = Some i"
  shows "commit_update db e = Inl IntegrityError \<and>
           (e_name e = None \<or> e_quantity e = None \<or> e_is_done e = None) \<or>
         (\<exists>r. commit_update db e = Inr (map (\<lambda>x. if row_id x = i then r else x) db, load r) \<and>
              row_id r = i \<and> load r = e)"
proof (cases "e_name e = None \<or> e_quantity e = None \<or> e_is_done e = None")
  case True
  then show ?thesis
    by (auto simp: commit_update_def split: option.splits)
next
  case False
  then obtain n q d where "e_name e = Some n" "e_quantity e = Some q" "e_is_done e = Some d"
    by auto
  with assms have "commit_update db e =
      Inr (map (\<lambda>x. if row_id x = i
                     then \<lparr>row_id = i, row_name = n, row_quantity = q, row_is_done = d\<rparr>
                     else x) db,
           load \<lparr>row_id = i, row_name = n, row_quantity = q, row_is_done = d\<rparr>) \<and>
      row_id \<lparr>row_id = i, row_name = n, row_quantity = q, row_is_done = d\<rparr> = i \<and>
      load \<lparr>row_id = i, row_name = n, row_quantity = q, row_is_done = d\<rparr> = e"
    by (cases e) (simp add: commit_update_def load_def)
  then show ?thesis by blast
qed

lemma patch_essence_cases:
  assumes "db_get db i = Some essence"
  shows "patch_essence i u db = Inl IntegrityError \<or>
         (\<exists>r. patch_essence i u db = Inr (map (\<lambda>x. if row_id x = i then r else x) db, load r) \<and>
              row_id r = i \<and> load r = setattrs (model_dump_exclude_unset u) essence)"
proof -
  from assms have "e_id essence = Some i"
    by (auto dest!: db_get_SomeD simp: load_def)
  then have "e_id (setattrs (model_dump_exclude_unset u) essence) = Some i"
    by (simp add: setattrs_exclude_unset)
  from commit_update_cases [OF this, of db] assms show ?thesis
    by (auto simp: patch_essence_def)
qed

lemma route_patch_cases:
  assumes "db_get db i = Some essence" and "body req = Object p"
  shows "snd (route_patch db i req) = db \<and> status_code (fst (route_patch db i req)) \<noteq> 200 \<or>
         (\<exists>u r. validate_EssenceUpdate p = Inr u \<and>
                snd (route_patch db i req) = map (\<lambda>x. if row_id x = i then r else x) db \<and>
                row_id r = i \<and> load r = setattrs (model_dump_exclude_unset u) essence)"
proof (cases "validate_EssenceUpdate p")
  case (Inl e)
  then have "e = RequestValidationError"
    by (rule validate_EssenceUpdate_Inl)
  with Inl assms(2) show ?thesis
    by (simp add: route_patch_def)
next
  case (Inr u)
  from patch_essence_cases [OF assms(1), of u] show ?thesis
  proof
    assume "patch_essence i u db = Inl IntegrityError"
    with Inr assms(2) show ?thesis
      by (simp add: route_patch_def respond_def)
  next
    assume "\<exists>r. patch_essence i u db =
                Inr (map (\<lambda>x. if row_id x = i then r else x) db, load r) \<and>
              row_id r = i \<and> load r = setattrs (model_dump_exclude_unset u) essence"
    then obtain r where "patch_essence i u db =
                Inr (map (\<lambda>x. if row_id x = i then r else x) db, load r)"
      and "row_id r = i" and "load r = setattrs (model_dump_exclude_unset u) essence"
      by blast
    with Inr assms(2) have "validate_EssenceUpdate p = Inr u \<and>
                snd (route_patch db i req) = map (\<lambda>x. if row_id x = i then r else x) db \<and>
                row_id r = i \<and> load r = setattrs (model_dump_exclude_unset u) essence"
      by (simp add: route_patch_def snd_respond)
    then show ?thesis by blast
  qed
qed

text \<open>
  C6. For every existing row and every Update payload, whatever the answer, the row
  found under the same key afterwards has the key it had and, for every field the
  payload leaves out, the value it had; when the answer is 200 every field the payload
  gives a value has that value. With an empty payload the row is the one before. The
  rows under other keys are not touched.
\<close>

theorem patch_applies_present_fields:
  assumes "db_get db essence_id = Some essence" and "body req = Object p"
  shows "(\<exists>essence'.
            db_get (snd (route_patch db essence_id req)) essence_id = Some essence' \<and>
            e_id essence' = e_id essence \<and>
            (p_name p = Absent \<longrightarrow> e_name essence' = e_name essence) \<and>
            (p_quantity p = Absent \<longrightarrow> e_quantity essence' = e_quantity essence) \<and>
            (p_is_done p = Absent \<longrightarrow> e_is_done essence' = e_is_done essence) \<and>
            (p_name p = Absent \<and> p_quantity p = Absent \<and> p_is_done p = Absent \<longrightarrow>
               essence' = essence) \<and>
            (status_code (fst (route_patch db essence_id req)) = 200 \<longrightarrow>
               (\<forall>n. p_name p = Given n \<longrightarrow> e_name essence' = Some n) \<and>
               (\<forall>q. p_quantity p = Given q \<longrightarrow> e_quantity essence' = Some q) \<and>
               (\<forall>d. p_is_done p = Given d \<longrightarrow> e_is_done essence' = Some d))) \<and>
         (\<forall>j. j \<noteq> essence_id \<longrightarrow>
            db_get (snd (route_patch db essence_id req)) j = db_get db j)"
proof -
  from route_patch_cases [OF assms] show ?thesis
  proof
    assume "snd (route_patch db essence_id req) = db \<and>
      status_code (fst (route_patch db essence_id req)) \<noteq> 200"
    with assms(1) show ?thesis by simp
  next
    assume "\<exists>u r. validate_EssenceUpdate p = Inr u \<and>
                snd (route_patch db essence_id req) =
                  map (\<lambda>x. if row_id x = essence_id then r else x) db \<and>
                row_id r = essence_id \<and>
                load r = setattrs (model_dump_exclude_unset u) essence"
    then obtain u r where u: "validate_EssenceUpdate p = Inr u"
      and db': "snd (route_patch db essence_id req) =
                  map (\<lambda>x. if row_id x = essence_id then r else x) db"
      and r: "row_id r = essence_id"
      and e': "load r = setattrs (model_dump_exclude_unset u) essence"
      by blast
    note v = validate_EssenceUpdate_InrD [OF u]
    have get: "db_get (snd (route_patch db essence_id req)) j =
        (if j = essence_id then Some (load r) else db_get db j)" for j
      using assms(1) r by (simp add: db' db_get_update)
    have id: "e_id (load r) = e_id essence"
      by (simp add: e' setattrs_exclude_unset)
    have name: "e_name (load r) = (if p_name p = Absent then e_name essence else u_name u)"
      using v by (simp add: e' setattrs_exclude_unset in_fields_set)
    have quantity:
      "e_quantity (load r) = (if p_quantity p = Absent then e_quantity essence else u_quantity u)"
      using v by (simp add: e' setattrs_exclude_unset in_fields_set)
    have is_done:
      "e_is_done (load r) = (if p_is_done p = Absent then e_is_done essence else u_is_done u)"
      using v by (simp add: e' setattrs_exclude_unset in_fields_set)
    have given: "(\<forall>n. p_name p = Given n \<longrightarrow> u_name u = Some n) \<and>
        (\<forall>q. p_quantity p = Given q \<longrightarrow> u_quantity u = Some q) \<and>
        (\<forall>d. p_is_done p = Given d \<longrightarrow> u_is_done u = Some d)"
      using v by (auto simp: update_name_def update_quantity_def update_is_done_def
          split: if_splits)
    have same: "load r = essence"
      if "p_name p = Absent \<and> p_quantity p = Absent \<and> p_is_done p = Absent"
      using that id name quantity is_done by (cases essence, cases "load r") simp
    have "db_get (snd (route_patch db essence_id req)) essence_id = Some (load r) \<and>
            e_id (load r) = e_id essence \<and>
            (p_name p = Absent \<longrightarrow> e_name (load r) = e_name essence) \<and>
            (p_quantity p = Absent \<longrightarrow> e_quantity (load r) = e_quantity essence) \<and>
            (p_is_done p = Absent \<longrightarrow> e_is_done (load r) = e_is_done essence) \<and>
            (p_name p = Absent \<and> p_quantity p = Absent \<and> p_is_done p = Absent \<longrightarrow>
               load r = essence) \<and>
            (status_code (fst (route_patch db essence_id req)) = 200 \<longrightarrow>
               (\<forall>n. p_name p = Given n \<longrightarrow> e_name (load r) = Some n) \<and>
               (\<forall>q. p_quantity p = Given q \<longrightarrow> e_quantity (load r) = Some q) \<and>
               (\<forall>d. p_is_done p = Given d \<longrightarrow> e_is_done (load r) = Some d))"
      using get [of essence_id] id name quantity is_done given same by simp
    then have "\<exists>essence'.
            db_get (snd (route_patch db essence_id req)) essence_id = Some essence' \<and>
            e_id essence' = e_id essence \<and>
            (p_name p = Absent \<longrightarrow> e_name essence' = e_name essence) \<and>
            (p_quantity p = Absent \<longrightarrow> e_quantity essence' = e_quantity essence) \<and>
            (p_is_done p = Absent \<longrightarrow> e_is_done essence' = e_is_done essence) \<and>
            (p_name p = Absent \<and> p_quantity p = Absent \<and> p_is_done p = Absent \<longrightarrow>
               essence' = essence) \<and>
            (status_code (fst (route_patch db essence_id req)) = 200 \<longrightarrow>
               (\<forall>n. p_name p = Given n \<longrightarrow> e_name essence' = Some n) \<and>
               (\<forall>q. p_quantity p = Given q \<longrightarrow> e_quantity essence' = Some q) \<and>
               (\<forall>d. p_is_done p = Given d \<longrightarrow> e_is_done essence' = Some d))"
      by (rule exI)
    moreover have "\<forall>j. j \<noteq> essence_id \<longrightarrow>
            db_get (snd (route_patch db essence_id req)) j = db_get db j"
      using get by simp
    ultimately show ?thesis by (rule conjI)
  qed
qed

theorem patch_applies_present_fields_witness:
  "status_code (fst (route_patch
      [\<lparr>row_id = 1, row_name = ''Apple'', row_quantity = 5, row_is_done = False\<rparr>] 1
      \<lparr>query = \<lparr>p_name = Absent, p_quantity = Absent, p_is_done = Absent, p_extra = []\<rparr>,
       body = Object \<lparr>p_name = Absent, p_quantity = Given 7, p_is_done = Absent,
                      p_extra = []\<rparr>\<rparr>)) = 200 \<and>
   (\<exists>essence'.
      db_get (snd (route_patch
        [\<lparr>row_id = 1, row_name = ''Apple'', row_quantity = 5, row_is_done = False\<rparr>] 1
        \<lparr>query = \<lparr>p_name = Absent, p_quantity = Absent, p_is_done = Absent, p_extra = []\<rparr>,
         body = Object \<lparr>p_name = Absent, p_quantity = Given 7, p_is_done = Absent,
                        p_extra = []\<rparr>\<rparr>)) 1 = Some essence' \<and>
      e_id essence' = Some 1 \<and> e_name essence' = Some ''Apple'' \<and>
      e_quantity essence' = Some 7 \<and> e_is_done essence' = Some False) \<and>
   db_get (snd (route_patch
        [\<lparr>row_id = 1, row_name = ''Apple'', row_quantity = 5, row_is_done = False\<rparr>] 1
        \<lparr>query = \<lparr>p_name = Absent, p_quantity = Absent, p_is_done = Absent, p_extra = []\<rparr>,
         body = Object \<lparr>p_name = Absent, p_quantity = Absent, p_is_done = Absent,
                        p_extra = []\<rparr>\<rparr>)) 1 =
     Some \<lparr>e_id = Some 1, e_name = Some ''Apple'', e_quantity = Some 5, e_is_done = Some False\<rparr>"
proof -
  define row where "row = \<lparr>row_id = 1, row_name = ''Apple'', row_quantity = 5, row_is_done = False\<rparr>"
  define q where "q = \<lparr>p_name = Absent, p_quantity = Absent, p_is_done = Absent, p_extra = []\<rparr>"
  define p where "p = \<lparr>p_name = Absent, p_quantity = Given 7, p_is_done = Absent, p_extra = []\<rparr>"
  define req where "req = \<lparr>query = q, body = Object p\<rparr>"
  define empty where "empty = \<lparr>query = q, body = Object q\<rparr>"
  have found: "db_get [row] 1 = Some (load row)"
    by (simp add: db_get_def row_def)
  have b: "body req = Object p" and b': "body empty = Object q"
    by (simp_all add: req_def empty_def)
  have p: "p_name p = Absent" "p_quantity p = Given 7" "p_is_done p = Absent"
    and q: "p_name q = Absent" "p_quantity q = Absent" "p_is_done q = Absent"
    by (simp_all add: p_def q_def)
  have "validate_EssenceUpdate p =
      Inr \<lparr>u_name = None, u_quantity = Some 7, u_is_done = None, model_fields_set = {''quantity''}\<rparr>"
    by (simp add: p_def validate_EssenceUpdate_def update_name_def update_quantity_def
        update_is_done_def fields_set_def)
  moreover have "patch_essence 1
      \<lparr>u_name = None, u_quantity = Some 7, u_is_done = None, model_fields_set = {''quantity''}\<rparr>
      [row] = Inr ([row\<lparr>row_quantity := 7\<rparr>], load (row\<lparr>row_quantity := 7\<rparr>))"
    by (simp add: patch_essence_def found setattrs_exclude_unset commit_update_def)
      (simp add: row_def load_def)
  moreover have "EssenceOut_from (load (row\<lparr>row_quantity := 7\<rparr>)) =
      Inr \<lparr>o_id = 1, o_name = ''Apple'', o_quantity = 7, o_is_done = False\<rparr>"
    by (simp add: EssenceOut_from_load row_def)
  ultimately have ok: "status_code (fst (route_patch [row] 1 req)) = 200"
    by (simp add: route_patch_def b respond_def)
  from patch_applies_present_fields [OF found b, THEN conjunct1]
  obtain essence' where e: "db_get (snd (route_patch [row] 1 req)) 1 = Some essence'"
    and "e_id essence' = e_id (load row)"
    and "p_name p = Absent \<longrightarrow> e_name essence' = e_name (load row)"
    and "p_is_done p = Absent \<longrightarrow> e_is_done essence' = e_is_done (load row)"
    and "status_code (fst (route_patch [row] 1 req)) = 200 \<longrightarrow>
           (\<forall>q. p_quantity p = Given q \<longrightarrow> e_quantity essence' = Some q)"
    by blast
  with ok p have "e_id essence' = Some 1 \<and> e_name essence' = Some ''Apple'' \<and>
      e_quantity essence' = Some 7 \<and> e_is_done essence' = Some False"
    by (simp add: load_def row_def)
  with e have changed: "\<exists>essence'. db_get (snd (route_patch [row] 1 req)) 1 = Some essence' \<and>
      e_id essence' = Some 1 \<and> e_name essence' = Some ''Apple'' \<and>
      e_quantity essence' = Some 7 \<and> e_is_done essence' = Some False"
    by blast
  from patch_applies_present_fields [OF found b', THEN conjunct1]
  obtain essence'' where "db_get (snd (route_patch [row] 1 empty)) 1 = Some essence''"
    and "p_name q = Absent \<and> p_quantity q = Absent \<and> p_is_done q = Absent \<longrightarrow>
           essence'' = load row"
    by blast
  with q have same: "db_get (snd (route_patch [row] 1 empty)) 1 = Some (load row)"
    by simp
  from ok changed same show ?thesis
    unfolding row_def q_def p_def req_def empty_def load_def by simp
qed

section \<open>A null in a partial update\<close>




section \<open>Not found\<close>



section \<open>Delete\<close>

text \<open>
  C8. Deleting a key under which a row is stored answers 204 with an empty body and
  removes the row, every other row staying; the key is then absent, and a second delete
  of the same key answers 404 and leaves the table as the first delete left it.
\<close>

theorem delete_then_not_found:
  assumes "essence_id \<in> row_id ` set db"
  shows "route_delete db essence_id =
           (Response 204 Empty, filter (\<lambda>r. row_id r \<noteq> essence_id) db) \<and>
         essence_id \<notin> row_id ` set (filter (\<lambda>r. row_id r \<noteq> essence_id) db) \<and>
         route_delete (filter (\<lambda>r. row_id r \<noteq> essence_id) db) essence_id =
           (Response 404 Detail, filter (\<lambda>r. row_id r \<noteq> essence_id) db) \<and>
         route_get (filter (\<lambda>r. row_id r \<noteq> essence_id) db) essence_id =
           (Response 404 Detail, filter (\<lambda>r. row_id r \<noteq> essence_id) db)"
proof -
  let ?db = "filter (\<lambda>r. row_id r \<noteq> essence_id) db"
  from assms obtain essence where found: "db_get db essence_id = Some essence"
    by (cases "db_get db essence_id") (auto simp: db_get_None_iff)
  then obtain r where "row_id r = essence_id" and "essence = load r"
    by (auto dest: db_get_SomeD)
  then have "commit_delete db essence = ?db"
    by (simp add: commit_delete_load)
  with found have first: "route_delete db essence_id = (Response 204 Empty, ?db)"
    by (simp add: route_delete_def delete_essence_def)
  have gone: "essence_id \<notin> row_id ` set ?db"
    by auto
  then have "db_get ?db essence_id = None"
    by (simp only: db_get_None_iff not_False_eq_True)
  then have "route_delete ?db essence_id = (Response 404 Detail, ?db)"
    and "route_get ?db essence_id = (Response 404 Detail, ?db)"
    by (simp_all add: route_delete_def delete_essence_def route_get_def get_essence_def
        respond_def)
  with first gone show ?thesis by (intro conjI)
qed

theorem delete_then_not_found_witness:
  "route_delete [\<lparr>row_id = 1, row_name = ''Apple'', row_quantity = 5, row_is_done = False\<rparr>,
                 \<lparr>row_id = 2, row_name = ''Apricot'', row_quantity = 3, row_is_done = True\<rparr>] 1 =
     (Response 204 Empty,
      [\<lparr>row_id = 2, row_name = ''Apricot'', row_quantity = 3, row_is_done = True\<rparr>]) \<and>
   route_delete [\<lparr>row_id = 2, row_name = ''Apricot'', row_quantity = 3, row_is_done = True\<rparr>] 1 =
     (Response 404 Detail,
      [\<lparr>row_id = 2, row_name = ''Apricot'', row_quantity = 3, row_is_done = True\<rparr>])"
proof -
  let ?db = "[\<lparr>row_id = 1, row_name = ''Apple'', row_quantity = 5, row_is_done = False\<rparr>,
              \<lparr>row_id = 2, row_name = ''Apricot'', row_quantity = 3, row_is_done = True\<rparr>]"
  have "1 \<in> row_id ` set ?db" by simp
  from delete_then_not_found [OF this] show ?thesis by simp
qed

section \<open>The quantity of a stored row\<close>

lemma validate_list_valid:
  "validate_list ps = Inr xs \<Longrightarrow> \<forall>x \<in> set xs. length (b_name x) \<le> 255 \<and> 0 \<le> b_quantity x"
proof (induction ps arbitrary: xs)
  case Nil
  then show ?case by simp
next
  case (Cons p ps)
  then show ?case
    by (auto split: sum.splits simp: validate_EssenceBase_Inr)
qed

lemma route_post_quantity:
  assumes "\<forall>r \<in> set db. 0 \<le> row_quantity r"
  shows "\<forall>r \<in> set (snd (route_post db req)). 0 \<le> row_quantity r"
proof (cases "depends_EssenceCreate req")
  case (Inl e)
  with assms show ?thesis by (simp add: route_post_def)
next
  case (Inr x)
  then have "0 \<le> b_quantity x"
    by (simp add: depends_EssenceCreate_def validate_EssenceBase_Inr)
  with Inr assms show ?thesis
    by (simp add: route_post_def snd_respond create_essence_eq)
qed

lemma route_post_bulk_quantity:
  assumes "\<forall>r \<in> set db. 0 \<le> row_quantity r"
  shows "\<forall>r \<in> set (snd (route_post_bulk db req)). 0 \<le> row_quantity r"
proof (cases "body req")
  case NoBody
  with assms show ?thesis by (simp add: route_post_bulk_def)
next
  case (Object p)
  with assms show ?thesis by (simp add: route_post_bulk_def)
next
  case (Array ps)
  show ?thesis
  proof (cases "validate_list ps")
    case (Inl e)
    with Array assms show ?thesis by (simp add: route_post_bulk_def)
  next
    case (Inr xs)
    then have "\<forall>r \<in> set (bulk_rows (next_id db) xs). length (row_name r) \<le> 255 \<and> 0 \<le> row_quantity r"
      by (intro bulk_rows_valid validate_list_valid)
    with assms show ?thesis
      by (auto simp: route_post_bulk_accepted [OF Array Inr])
  qed
qed

lemma route_put_quantity:
  assumes "\<forall>r \<in> set db. 0 \<le> row_quantity r"
  shows "\<forall>r \<in> set (snd (route_put db i req)). 0 \<le> row_quantity r"
proof (cases "body req")
  case NoBody
  with assms show ?thesis by (simp add: route_put_def)
next
  case (Array ps)
  with assms show ?thesis by (simp add: route_put_def)
next
  case (Object p)
  show ?thesis
  proof (cases "validate_EssenceBase p")
    case (Inl e)
    with Object assms show ?thesis by (simp add: route_put_def)
  next
    case (Inr x)
    then have q: "0 \<le> b_quantity x"
      by (simp add: validate_EssenceBase_Inr)
    show ?thesis
    proof (cases "db_get db i")
      case None
      with Object Inr assms show ?thesis
        by (simp add: route_put_def put_essence_def snd_respond)
    next
      case (Some essence)
      from put_essence_found [OF this, of x] Object Inr assms q show ?thesis
        by (auto simp: route_put_def snd_respond)
    qed
  qed
qed

lemma route_patch_quantity:
  assumes "\<forall>r \<in> set db. 0 \<le> row_quantity r"
  shows "\<forall>r \<in> set (snd (route_patch db i req)). 0 \<le> row_quantity r"
proof (cases "body req")
  case NoBody
  with assms show ?thesis by (simp add: route_patch_def)
next
  case (Array ps)
  with assms show ?thesis by (simp add: route_patch_def)
next
  case (Object p)
  show ?thesis
  proof (cases "db_get db i")
    case None
    then have "snd (route_patch db i req) = db"
      using Object
      by (auto simp: route_patch_def patch_essence_def snd_respond split: sum.splits)
    with assms show ?thesis by simp
  next
    case (Some essence)
    from route_patch_cases [OF Some Object] show ?thesis
    proof
      assume "snd (route_patch db i req) = db \<and> status_code (fst (route_patch db i req)) \<noteq> 200"
      with assms show ?thesis by simp
    next
      assume "\<exists>u r. validate_EssenceUpdate p = Inr u \<and>
                snd (route_patch db i req) = map (\<lambda>x. if row_id x = i then r else x) db \<and>
                row_id r = i \<and> load r = setattrs (model_dump_exclude_unset u) essence"
      then obtain u r where u: "validate_EssenceUpdate p = Inr u"
        and db': "snd (route_patch db i req) = map (\<lambda>x. if row_id x = i then r else x) db"
        and e': "load r = setattrs (model_dump_exclude_unset u) essence"
        by blast
      note v = validate_EssenceUpdate_InrD [OF u]
      from Some obtain r0 where r0: "r0 \<in> set db" "essence = load r0"
        by (auto dest: db_get_SomeD)
      have "e_quantity (load r) =
          (if p_quantity p = Absent then e_quantity essence else u_quantity u)"
        using v by (simp add: e' setattrs_exclude_unset in_fields_set)
      then have "Some (row_quantity r) =
          (if p_quantity p = Absent then Some (row_quantity r0) else u_quantity u)"
        by (simp add: load_def r0)
      moreover have "0 \<le> row_quantity r0"
        using assms r0 by simp
      moreover have "u_quantity u = Some k \<Longrightarrow> 0 \<le> k" for k
        using v by (auto simp: update_quantity_def split: raw.splits if_splits)
      ultimately have "0 \<le> row_quantity r"
        by (auto split: if_splits)
      with assms show ?thesis
        by (auto simp: db')
    qed
  qed
qed

lemma route_delete_quantity:
  assumes "\<forall>r \<in> set db. 0 \<le> row_quantity r"
  shows "\<forall>r \<in> set (snd (route_delete db i)). 0 \<le> row_quantity r"
  using assms
  by (auto simp: route_delete_def delete_essence_def commit_delete_def split: option.splits)

text \<open>
  C9. In every table that create, bulk-create, full-replace, partial-update and delete
  can produce from the empty table, no row has a negative quantity. The storage itself
  has no such constraint: it inserts a row with any quantity it is handed, so the
  bound comes from the schemas that validate the requests.
\<close>

theorem quantity_never_negative:
  "(reachable db \<longrightarrow> (\<forall>r \<in> set db. 0 \<le> row_quantity r)) \<and>
   insert_row db' \<lparr>e_id = None, e_name = Some n, e_quantity = Some q, e_is_done = Some d\<rparr> =
     Inr (db' @ [\<lparr>row_id = next_id db', row_name = n, row_quantity = q, row_is_done = d\<rparr>],
          load \<lparr>row_id = next_id db', row_name = n, row_quantity = q, row_is_done = d\<rparr>)"
proof
  show "reachable db \<longrightarrow> (\<forall>r \<in> set db. 0 \<le> row_quantity r)"
  proof
    assume "reachable db"
    then show "\<forall>r \<in> set db. 0 \<le> row_quantity r"
    proof (induction rule: reachable.induct)
      case init
      show ?case by simp
    next
      case (create db req)
      then show ?case by (intro route_post_quantity)
    next
      case (bulk db req)
      then show ?case by (intro route_post_bulk_quantity)
    next
      case (put db essence_id req)
      then show ?case by (intro route_put_quantity)
    next
      case (patch db essence_id req)
      then show ?case by (intro route_patch_quantity)
    next
      case (delete db essence_id)
      then show ?case by (intro route_delete_quantity)
    qed
  qed
  show "insert_row db' \<lparr>e_id = None, e_name = Some n, e_quantity = Some q, e_is_done = Some d\<rparr> =
     Inr (db' @ [\<lparr>row_id = next_id db', row_name = n, row_quantity = q, row_is_done = d\<rparr>],
          load \<lparr>row_id = next_id db', row_name = n, row_quantity = q, row_is_done = d\<rparr>)"
    by (simp add: insert_row_def Let_def)
qed

theorem quantity_never_negative_witness:
  "reachable [\<lparr>row_id = 1, row_name = ''Apple'', row_quantity = 5, row_is_done = False\<rparr>] \<and>
   (0::int) \<le> row_quantity \<lparr>row_id = 1, row_name = ''Apple'', row_quantity = 5, row_is_done = False\<rparr> \<and>
   insert_row [] \<lparr>e_id = None, e_name = Some ''Apple'', e_quantity = Some (- 1),
                  e_is_done = Some False\<rparr> =
     Inr ([\<lparr>row_id = 1, row_name = ''Apple'', row_quantity = - 1, row_is_done = False\<rparr>],
          load \<lparr>row_id = 1, row_name = ''Apple'', row_quantity = - 1, row_is_done = False\<rparr>)"
proof -
  define row where "row = \<lparr>row_id = 1, row_name = ''Apple'', row_quantity = 5, row_is_done = False\<rparr>"
  define req where
    "req = \<lparr>query = \<lparr>p_name = Given ''Apple'', p_quantity = Given 5, p_is_done = Absent,
                      p_extra = []\<rparr>, body = NoBody\<rparr>"
  have "snd (route_post [] req) = [row]"
    by (simp add: route_post_def depends_EssenceCreate_def validate_EssenceBase_def
        base_name_def base_quantity_def base_is_done_def req_def snd_respond create_essence_eq
        next_id_def row_def)
  with reachable.create [OF reachable.init, of req] have r: "reachable [row]"
    by simp
  from quantity_never_negative [where db = "[row]", THEN conjunct1] r
  have q: "0 \<le> row_quantity row"
    by simp
  have n: "next_id [] = 1"
    by (simp add: next_id_def)
  from quantity_never_negative [where db' = "[]" and n = "''Apple''" and q = "- 1" and d = False,
      THEN conjunct2]
  have "insert_row [] \<lparr>e_id = None, e_name = Some ''Apple'', e_quantity = Some (- 1),
                  e_is_done = Some False\<rparr> =
     Inr ([\<lparr>row_id = 1, row_name = ''Apple'', row_quantity = - 1, row_is_done = False\<rparr>],
          load \<lparr>row_id = 1, row_name = ''Apple'', row_quantity = - 1, row_is_done = False\<rparr>)"
    unfolding n by simp
  with r q show ?thesis
    unfolding row_def by (intro conjI)
qed

end
